theory Spec2Isabelle
  imports Complex_Main "HOL-Library.Log_Nat"
begin

section \<open>JavaScript values\<close>

text \<open>
  A parsed JSON value, as \<open>response.json()\<close> delivers it. A number of the envelope is kept
  as the real number it denotes (JSON has neither NaN nor the infinities); the client only
  compares such a number and tests its truthiness. A value that may
  also be \<open>undefined\<close> is a \<open>json option\<close>, with \<open>None\<close> for \<open>undefined\<close>.
\<close>

datatype json =
    JNull
  | JBool bool
  | JNum real
  | JStr string
  | JArr "json list"
  | JObj "(string \<times> json) list"

type_synonym jsval = "json option"

text \<open>
  A value an attempt can throw (\<open>fetch\<close> rejecting, \<open>new URL\<close> throwing): whether it is
  an \<open>instanceof Error\<close>, and its \<open>name\<close>.
\<close>

datatype exn = Exn (is_Error: bool) (name: string)

text \<open>
  What the client's operations can throw: an attempt's exception thrown on, or an
  \<open>Error\<close> the client builds itself, kept structured with the parts of its message (the
  HTTP status and body text, or the envelope's code), or the TypeError of reading a
  property of \<open>undefined\<close> or \<open>null\<close>, or the SyntaxError of \<open>json()\<close>.
\<close>

datatype error =
    Rethrown exn
  | ApiKeyRequired
  | FailedToCreate int string
  | FailedToCreateCode jsval
  | FailedToReload int string
  | FailedToUpload int string
  | TypeError_property string
  | SyntaxError_json

text \<open>The truthiness of a JavaScript value, as \<open>||\<close> and \<open>if\<close> test it.\<close>

fun truthy :: "jsval \<Rightarrow> bool" where
  "truthy None = False"
| "truthy (Some JNull) = False"
| "truthy (Some (JBool b)) = b"
| "truthy (Some (JNum x)) = (x \<noteq> 0)"
| "truthy (Some (JStr s)) = (s \<noteq> [])"
| "truthy (Some (JArr xs)) = True"
| "truthy (Some (JObj kvs)) = True"

definition js_or :: "jsval \<Rightarrow> jsval \<Rightarrow> jsval" where
  "js_or a b = (if truthy a then a else b)"

text \<open>\<open>x || d\<close> on an optional number: \<open>undefined\<close> and \<open>0\<close> are falsy.\<close>

definition num_or :: "real option \<Rightarrow> real \<Rightarrow> real" where
  "num_or x d = (case x of None \<Rightarrow> d | Some v \<Rightarrow> if v = 0 then d else v)"

text \<open>\<open>x || d\<close> on an optional string: \<open>undefined\<close> and the empty string are falsy.\<close>

definition str_or :: "string option \<Rightarrow> string \<Rightarrow> string" where
  "str_or x d = (case x of None \<Rightarrow> d | Some v \<Rightarrow> if v = [] then d else v)"

text \<open>
  Reading a property of a parsed JSON value, for the keys this client reads (none of them
  is on a prototype): a property of \<open>undefined\<close> or \<open>null\<close> throws a TypeError, an object
  gives the value under the key (the last one, where the JSON text repeats a key) or
  \<open>undefined\<close>, and every other value gives \<open>undefined\<close>.
\<close>

fun js_get :: "json \<Rightarrow> string \<Rightarrow> jsval" where
  "js_get (JObj kvs) k = map_of (rev kvs) k"
| "js_get _ k = None"

fun js_prop :: "jsval \<Rightarrow> string \<Rightarrow> error + jsval" where
  "js_prop None k = Inl (TypeError_property k)"
| "js_prop (Some JNull) k = Inl (TypeError_property k)"
| "js_prop (Some v) k = Inr (js_get v k)"

text \<open>
  The string a template literal puts in for a value. How a number prints is left to
  the parameter \<open>f\<close> (\<open>Number.prototype.toString\<close>).
\<close>

fun join_comma :: "string list \<Rightarrow> string" where
  "join_comma [] = []"
| "join_comma [s] = s"
| "join_comma (s # t # ts) = s @ '','' @ join_comma (t # ts)"

fun json_String :: "(real \<Rightarrow> string) \<Rightarrow> json \<Rightarrow> string" where
  "json_String f JNull = ''null''"
| "json_String f (JBool b) = (if b then ''true'' else ''false'')"
| "json_String f (JNum x) = f x"
| "json_String f (JStr s) = s"
| "json_String f (JArr xs) =
     join_comma (map (\<lambda>x. case x of JNull \<Rightarrow> [] | _ \<Rightarrow> json_String f x) xs)"
| "json_String f (JObj kvs) = ''[object Object]''"

definition js_String :: "(real \<Rightarrow> string) \<Rightarrow> jsval \<Rightarrow> string" where
  "js_String f v = (case v of None \<Rightarrow> ''undefined'' | Some j \<Rightarrow> json_String f j)"

text \<open>\<open>String.prototype.toUpperCase\<close> on the ASCII letters.\<close>

definition char_upper :: "char \<Rightarrow> char" where
  "char_upper c =
     (case map_of (zip ''abcdefghijklmnopqrstuvwxyz'' ''ABCDEFGHIJKLMNOPQRSTUVWXYZ'') c of
        Some u \<Rightarrow> u
      | None \<Rightarrow> c)"

definition toUpperCase :: "string \<Rightarrow> string" where
  "toUpperCase s = map char_upper s"

section \<open>Numbers in double precision\<close>

text \<open>
  The delay of a retry is computed in IEEE 754 double precision, and its rounding
  matters at the ends of the range, so these numbers are kept as doubles. A finite
  double is kept as a pair \<open>Finite m e\<close> that denotes the dyadic number \<open>m * 2^e\<close>; the
  sign of a zero is not kept.
\<close>

datatype double = Finite int int | PosInf | NegInf | NaN


text \<open>\<open>m / 2^s\<close> rounded to the nearest integer, a tie going to the even one.\<close>

definition rne :: "int \<Rightarrow> nat \<Rightarrow> int" where
  "rne m s =
     (let q = m div 2 ^ s; r = m mod 2 ^ s
      in if 2 * r < 2 ^ s then q
         else if 2 ^ s < 2 * r then q + 1
         else if even q then q else q + 1)"

text \<open>
  The double nearest to \<open>m * 2^e\<close> (round to nearest, ties to even): the number keeps 53
  significant bits and no bit below \<open>2^-1074\<close>, and a result of magnitude \<open>2^1024\<close> or
  more is an infinity.
\<close>

definition round64 :: "int \<Rightarrow> int \<Rightarrow> double" where
  "round64 m e =
     (let s = max (bitlen \<bar>m\<bar> - 53) (- 1074 - e);
          m1 = (if s \<le> 0 then m else rne m (nat s));
          e1 = (if s \<le> 0 then e else e + s)
      in if m1 \<noteq> 0 \<and> 1024 < bitlen \<bar>m1\<bar> + e1
         then (if 0 < m1 then PosInf else NegInf)
         else Finite m1 e1)"

fun sign_of :: "double \<Rightarrow> int" where
  "sign_of (Finite m e) = sgn m"
| "sign_of PosInf = 1"
| "sign_of NegInf = - 1"
| "sign_of NaN = 0"

definition inf_of :: "int \<Rightarrow> double" where
  "inf_of s = (if 0 < s then PosInf else if s < 0 then NegInf else NaN)"

text \<open>The product and the sum of two doubles: the exact result, rounded.\<close>

fun dmul :: "double \<Rightarrow> double \<Rightarrow> double" where
  "dmul (Finite m1 e1) (Finite m2 e2) = round64 (m1 * m2) (e1 + e2)"
| "dmul NaN b = NaN"
| "dmul a NaN = NaN"
| "dmul a b = inf_of (sign_of a * sign_of b)"

fun dadd :: "double \<Rightarrow> double \<Rightarrow> double" where
  "dadd (Finite m1 e1) (Finite m2 e2) =
     (let e = min e1 e2
      in round64 (m1 * 2 ^ nat (e1 - e) + m2 * 2 ^ nat (e2 - e)) e)"
| "dadd NaN b = NaN"
| "dadd a NaN = NaN"
| "dadd PosInf NegInf = NaN"
| "dadd NegInf PosInf = NaN"
| "dadd PosInf b = PosInf"
| "dadd a PosInf = PosInf"
| "dadd NegInf b = NegInf"
| "dadd a NegInf = NegInf"

text \<open>
  \<open>Math.pow(2, n)\<close> for a count \<open>n\<close>: the power of two, which is a double below
  \<open>2^1024\<close>. \<open>x / 2\<close>: the quotient rounded, which is the product with \<open>2^-1\<close> rounded.
  \<open>Math.round(x)\<close>: the integer \<open>floor (x + 1/2)\<close>.
\<close>

definition Math_pow2 :: "nat \<Rightarrow> double" where
  "Math_pow2 n = round64 1 (int n)"

definition half :: "double \<Rightarrow> double" where
  "half x = dmul x (Finite 1 (- 1))"

fun Math_round :: "double \<Rightarrow> double" where
  "Math_round (Finite m e) =
     (if 0 \<le> e then Finite m e
      else Finite ((2 * m + 2 ^ nat (- e)) div 2 ^ (nat (- e) + 1)) 0)"
| "Math_round x = x"

section \<open>The client and its requests\<close>

text \<open>The \<open>WaveSpeed\<close> class: its four fields, fixed by the constructor.\<close>

record WaveSpeed =
  apiKey :: string
  baseUrl :: string
  pollInterval :: real
  timeout :: real

text \<open>The constructor's \<open>options\<close> argument.\<close>

record ClientOptions =
  baseUrl :: "string option"
  pollInterval :: "real option"
  timeout :: "real option"

text \<open>
  A request body: \<open>JSON.stringify(input)\<close> (kept as the value it serialises), a
  \<open>FormData\<close> with the blob under \<open>file\<close>, or a body the caller passed.
\<close>

datatype body = JsonBody json | FormBody string | CallerBody string

text \<open>
  A property of an options object: the object has no such key, or has the key with the
  value \<open>undefined\<close>, or has it with a value. Reading the property gives \<open>undefined\<close> in
  the first two cases alike; an object spread copies the key in the last two.
\<close>

datatype 'a property = Absent | Undefined | Present 'a

fun read_prop :: "'a property \<Rightarrow> 'a option" where
  "read_prop Absent = None"
| "read_prop Undefined = None"
| "read_prop (Present v) = Some v"

text \<open>\<open>RequestOptions\<close>: the fields of \<open>RequestInit\<close> the client touches, and its own four.\<close>

record RequestOptions =
  timeout :: "real property"
  maxRetries :: "real property"
  webhook :: "string property"
  isUpload :: "bool property"
  http_method :: "string property"
  headers :: "(string \<rightharpoonup> string) property"
  body :: "body property"

text \<open>The empty options object \<open>{}\<close>.\<close>

definition no_options :: RequestOptions where
  "no_options = \<lparr>timeout = Absent, maxRetries = Absent, webhook = Absent, isUpload = Absent,
     http_method = Absent, headers = Absent, body = Absent\<rparr>"

text \<open>A \<open>Response\<close>: its status, its body as text, and its body parsed as JSON
  (\<open>None\<close> when \<open>json()\<close> rejects).\<close>

record Response =
  status :: int
  body_text :: string
  json :: "json option"

definition ok :: "Response \<Rightarrow> bool" where
  "ok r = (200 \<le> Response.status r \<and> Response.status r \<le> 299)"

text \<open>
  What one attempt hands to \<open>fetch\<close>: the base URL and the path joined to it (after the
  leading slash is stripped), the method, headers and body of \<open>fetchOptions\<close>, and the
  deadline in milliseconds after which the attempt's \<open>AbortController\<close> fires.
\<close>

record Request =
  url_base :: string
  url_path :: string
  req_method :: "string option"
  req_headers :: "string \<rightharpoonup> string"
  req_body :: "body option"
  deadline :: real

text \<open>Why a retry is logged: the response's status, or the error caught.\<close>

datatype cause = ByStatus int | ByError exn

text \<open>
  The effects a run leaves, in order: an attempt of \<open>fetchWithTimeout\<close>, the warning
  of a retry (cause, retry count, retry budget, rounded delay), the backoff sleep before a
  retry, and the timer \<open>wait\<close> sets before polling again.
\<close>

datatype event =
    Fetch Request
  | Warn cause nat real double
  | Backoff double
  | PollTimer real

text \<open>The outcome of one attempt's \<open>try\<close> block: a response, or something thrown.\<close>

datatype outcome = Responded Response | Threw exn

text \<open>
  The surroundings of a run, which the client does not control: the outcome of the
  \<open>k\<close>-th attempt, the value of \<open>Math.random()\<close> drawn after the \<open>k\<close>-th attempt, and
  how a number prints.
\<close>

record runtime =
  net :: "nat \<Rightarrow> outcome"
  random :: "nat \<Rightarrow> double"
  number_to_string :: "real \<Rightarrow> string"

section \<open>Transport layer\<close>

text \<open>
  \<open>_getBackoffTime\<close>, with the value \<open>r\<close> of its \<open>Math.random()\<close> passed in:
  \<open>backoff = initialBackoff * Math.pow(2, retryCount)\<close> and the result
  \<open>backoff + r * (backoff / 2)\<close>, each operation rounding to a double.
\<close>

definition getBackoffTime :: "double \<Rightarrow> nat \<Rightarrow> double \<Rightarrow> double" where
  "getBackoffTime r retryCount initialBackoff =
     (let backoff = dmul initialBackoff (Math_pow2 retryCount)
      in dadd backoff (dmul r (half backoff)))"

definition shouldRetry :: "string option \<Rightarrow> Response \<Rightarrow> bool" where
  "shouldRetry m response =
     (let method_upper = toUpperCase (str_or m ''GET'')
      in Response.status response = 429 \<or>
         (method_upper = ''GET'' \<and> Response.status response \<ge> 500))"

definition compose_headers :: "WaveSpeed \<Rightarrow> RequestOptions \<Rightarrow> (string \<rightharpoonup> string)" where
  "compose_headers c options =
     (let given = (case read_prop (headers options) of None \<Rightarrow> Map.empty | Some h \<Rightarrow> h)
      in if read_prop (isUpload options) = Some True
         then [''Authorization'' \<mapsto> ''Bearer '' @ apiKey c] ++ given
         else [''Authorization'' \<mapsto> ''Bearer '' @ apiKey c,
               ''content-type'' \<mapsto> ''application/json''] ++ given)"

definition strip_slash :: "string \<Rightarrow> string" where
  "strip_slash path = (case path of [] \<Rightarrow> [] | c # cs \<Rightarrow> if c = CHR ''/'' then cs else path)"

definition build_request :: "WaveSpeed \<Rightarrow> string \<Rightarrow> RequestOptions \<Rightarrow> Request" where
  "build_request c path options =
     \<lparr>url_base = WaveSpeed.baseUrl c,
      url_path = strip_slash path,
      req_method = read_prop (http_method options),
      req_headers = compose_headers c options,
      req_body = read_prop (body options),
      deadline = (case read_prop (RequestOptions.timeout options) of
                    None \<Rightarrow> WaveSpeed.timeout c * 1000
                  | Some t \<Rightarrow> t)\<rparr>"

text \<open>
  The \<open>Prediction\<close> class. Its constructor takes \<open>data: any\<close> and copies ten properties
  unchecked, so each field holds whatever the envelope carried there, or \<open>undefined\<close>.
  The back-reference \<open>client\<close> is kept by value: a client never changes once built.
\<close>

record Prediction =
  id' :: jsval
  model :: jsval
  status :: jsval
  input :: jsval
  outputs :: jsval
  urls :: jsval
  has_nsfw_contents :: jsval
  created_at :: jsval
  error :: jsval
  executionTime :: jsval
  client :: WaveSpeed

text \<open>
  The state a run threads through: how many attempts have been issued (the index of the
  next outcome), the effects so far, and the store of \<open>Prediction\<close> objects: \<open>heap w r\<close> is
  the object behind the reference \<open>r\<close>, and the references below \<open>allocated w\<close> are in use.
\<close>

record world =
  attempts :: nat
  trace :: "event list"
  heap :: "nat \<Rightarrow> Prediction"
  allocated :: nat

definition retryable_exn :: "exn \<Rightarrow> bool" where
  "retryable_exn e = (is_Error e \<and> (name e = ''AbortError'' \<or> name e = ''TypeError''))"

text \<open>
  The \<open>while (true)\<close> loop of \<open>fetchWithTimeout\<close>, one attempt per call. It recurses only
  while \<open>retryCount < maxRetries\<close>, and \<open>retryCount\<close> grows by one each time, so for a
  budget that is a (finite) real number it ends.
\<close>

function fetch_loop ::
  "runtime \<Rightarrow> Request \<Rightarrow> real \<Rightarrow> nat \<Rightarrow> world \<Rightarrow> (error + Response) \<times> world" where
  "fetch_loop rt req maxR retryCount w =
     (let k = attempts w;
          w1 = w\<lparr>attempts := Suc k, trace := trace w @ [Fetch req]\<rparr>
      in case net rt k of
           Responded response \<Rightarrow>
             if ok response \<or> \<not> shouldRetry (req_method req) response \<or> real retryCount \<ge> maxR
             then (Inr response, w1)
             else
               let rc = Suc retryCount;
                   backoffTime = getBackoffTime (random rt k) rc (Finite 1000 0)
               in fetch_loop rt req maxR rc
                    (w1\<lparr>trace := trace w1 @
                       [Warn (ByStatus (Response.status response)) rc maxR (Math_round backoffTime),
                        Backoff backoffTime]\<rparr>)
         | Threw e \<Rightarrow>
             if retryable_exn e \<and> real retryCount < maxR
             then
               let rc = Suc retryCount;
                   backoffTime = getBackoffTime (random rt k) rc (Finite 1000 0)
               in fetch_loop rt req maxR rc
                    (w1\<lparr>trace := trace w1 @
                       [Warn (ByError e) rc maxR (Math_round backoffTime),
                        Backoff backoffTime]\<rparr>)
             else (Inl (Rethrown e), w1))"
  by pat_completeness auto
termination
  by (relation "measure (\<lambda>(rt, req, maxR, retryCount, w). nat \<lceil>maxR - real retryCount\<rceil>)")
     (auto, linarith+)

declare fetch_loop.simps [simp del]

definition fetchWithTimeout ::
  "runtime \<Rightarrow> WaveSpeed \<Rightarrow> string \<Rightarrow> RequestOptions \<Rightarrow> world \<Rightarrow> (error + Response) \<times> world" where
  "fetchWithTimeout rt c path options w =
     fetch_loop rt (build_request c path options)
       (num_or (read_prop (maxRetries options)) 3) 0 w"

section \<open>Job lifecycle\<close>

definition Prediction_new :: "jsval \<Rightarrow> WaveSpeed \<Rightarrow> error + Prediction" where
  "Prediction_new data c =
     (case data of
        None \<Rightarrow> Inl (TypeError_property ''id'')
      | Some d \<Rightarrow>
          if d = JNull then Inl (TypeError_property ''id'')
          else Inr \<lparr>id' = js_get d ''id'',
                    model = js_get d ''model'',
                    status = js_get d ''status'',
                    input = js_get d ''input'',
                    outputs = js_or (js_get d ''outputs'') (Some (JArr [])),
                    urls = js_get d ''urls'',
                    has_nsfw_contents = js_or (js_get d ''has_nsfw_contents'') (Some (JArr [])),
                    created_at = js_get d ''created_at'',
                    error = js_get d ''error'',
                    executionTime = js_get d ''executionTime'',
                    client = c\<rparr>)"

definition terminal :: "jsval \<Rightarrow> bool" where
  "terminal s = (s = Some (JStr ''completed'') \<or> s = Some (JStr ''failed''))"

definition reload_path :: "runtime \<Rightarrow> Prediction \<Rightarrow> string" where
  "reload_path rt p = ''predictions/'' @ js_String (number_to_string rt) (id' p) @ ''/result''"

text \<open>
  \<open>reload\<close> on the object behind \<open>this\<close>: \<open>Object.assign(this, updatedPrediction)\<close> copies
  every own property of the fresh object, which are all eleven fields, so the object
  behind \<open>this\<close> becomes the fresh one; the reference returned is \<open>this\<close>.
\<close>

definition reload :: "runtime \<Rightarrow> nat \<Rightarrow> world \<Rightarrow> (error + nat) \<times> world" where
  "reload rt this w =
     (case fetchWithTimeout rt (client (heap w this)) (reload_path rt (heap w this)) no_options w of
        (Inl e, w1) \<Rightarrow> (Inl e, w1)
      | (Inr response, w1) \<Rightarrow>
          if \<not> ok response
          then (Inl (FailedToReload (Response.status response) (body_text response)), w1)
          else
            (case json response of
               None \<Rightarrow> (Inl SyntaxError_json, w1)
             | Some data \<Rightarrow>
                 (case js_prop (Some data) ''data'' of
                    Inl e \<Rightarrow> (Inl e, w1)
                  | Inr d \<Rightarrow>
                      (case Prediction_new d (client (heap w1 this)) of
                         Inl e \<Rightarrow> (Inl e, w1)
                       | Inr updatedPrediction \<Rightarrow>
                           (Inr this, w1\<lparr>heap := (heap w1)(this := updatedPrediction)\<rparr>)))))"

text \<open>
  The polling of \<open>wait\<close>. \<open>checkStatus\<close> reloads, and either settles the promise or sets
  a timer that runs \<open>checkStatus\<close> again; nothing bounds the number of rounds, so the
  model takes the number of reloads it may make: \<open>None\<close> is a promise still pending
  after that many.
\<close>

fun checkStatus :: "nat \<Rightarrow> runtime \<Rightarrow> nat \<Rightarrow> world \<Rightarrow> (error + nat) option \<times> world" where
  "checkStatus 0 rt this w = (None, w)"
| "checkStatus (Suc n) rt this w =
     (case reload rt this w of
        (Inl e, w1) \<Rightarrow> (Some (Inl e), w1)
      | (Inr updated, w1) \<Rightarrow>
          if terminal (status (heap w1 updated))
          then (Some (Inr updated), w1)
          else checkStatus n rt this
                 (w1\<lparr>trace := trace w1 @
                    [PollTimer (WaveSpeed.pollInterval (client (heap w1 this)) * 1000)]\<rparr>))"

definition wait :: "nat \<Rightarrow> runtime \<Rightarrow> nat \<Rightarrow> world \<Rightarrow> (error + nat) option \<times> world" where
  "wait n rt this w =
     (if terminal (status (heap w this)) then (Some (Inr this), w)
      else checkStatus n rt this w)"

text \<open>
  \<open>{...defaults, ...options}\<close>: a key that \<open>options\<close> has wins, with its value or with
  \<open>undefined\<close>; a key it does not have keeps the default.
\<close>

definition or_else :: "'a property \<Rightarrow> 'a property \<Rightarrow> 'a property" where
  "or_else x d = (case x of Absent \<Rightarrow> d | Undefined \<Rightarrow> Undefined | Present v \<Rightarrow> Present v)"

definition spread :: "RequestOptions \<Rightarrow> RequestOptions \<Rightarrow> RequestOptions" where
  "spread defaults options =
     \<lparr>timeout = or_else (RequestOptions.timeout options) (RequestOptions.timeout defaults),
      maxRetries = or_else (maxRetries options) (maxRetries defaults),
      webhook = or_else (webhook options) (webhook defaults),
      isUpload = or_else (isUpload options) (isUpload defaults),
      http_method = or_else (http_method options) (http_method defaults),
      headers = or_else (headers options) (headers defaults),
      body = or_else (body options) (body defaults)\<rparr>"

definition create_url :: "string \<Rightarrow> RequestOptions option \<Rightarrow> string" where
  "create_url modelId options =
     (case options of
        None \<Rightarrow> modelId
      | Some opts \<Rightarrow>
          (case read_prop (webhook opts) of
             None \<Rightarrow> modelId
           | Some hook \<Rightarrow> if hook = [] then modelId else modelId @ ''?webhook='' @ hook))"

definition create ::
  "runtime \<Rightarrow> WaveSpeed \<Rightarrow> string \<Rightarrow> json \<Rightarrow> RequestOptions option \<Rightarrow> world
     \<Rightarrow> (error + nat) \<times> world" where
  "create rt c modelId inp options w =
     (case fetchWithTimeout rt c (create_url modelId options)
             (spread (no_options\<lparr>http_method := Present ''POST'', body := Present (JsonBody inp)\<rparr>)
                (case options of None \<Rightarrow> no_options | Some opts \<Rightarrow> opts)) w of
        (Inl e, w1) \<Rightarrow> (Inl e, w1)
      | (Inr response, w1) \<Rightarrow>
          if \<not> ok response
          then (Inl (FailedToCreate (Response.status response) (body_text response)), w1)
          else
            (case json response of
               None \<Rightarrow> (Inl SyntaxError_json, w1)
             | Some data \<Rightarrow>
                 (case js_prop (Some data) ''code'' of
                    Inl e \<Rightarrow> (Inl e, w1)
                  | Inr code \<Rightarrow>
                      if code \<noteq> Some (JNum 200) then (Inl (FailedToCreateCode code), w1)
                      else
                        (case Prediction_new (js_get data ''data'') c of
                           Inl e \<Rightarrow> (Inl e, w1)
                         | Inr p \<Rightarrow>
                             (Inr (allocated w1),
                              w1\<lparr>heap := (heap w1)(allocated w1 := p),
                                 allocated := Suc (allocated w1)\<rparr>)))))"

definition run ::
  "nat \<Rightarrow> runtime \<Rightarrow> WaveSpeed \<Rightarrow> string \<Rightarrow> json \<Rightarrow> RequestOptions option \<Rightarrow> world
     \<Rightarrow> (error + nat) option \<times> world" where
  "run n rt c modelId inp options w =
     (case create rt c modelId inp options w of
        (Inl e, w1) \<Rightarrow> (Some (Inl e), w1)
      | (Inr prediction, w1) \<Rightarrow> wait n rt prediction w1)"

definition upload ::
  "runtime \<Rightarrow> WaveSpeed \<Rightarrow> string \<Rightarrow> RequestOptions option \<Rightarrow> world
     \<Rightarrow> (error + jsval) \<times> world" where
  "upload rt c file options w =
     (let options1 = (case options of
                        None \<Rightarrow> no_options\<lparr>isUpload := Present True\<rparr>
                      | Some opts \<Rightarrow> opts)
      in case fetchWithTimeout rt c ''media/upload/binary''
                (spread (no_options\<lparr>http_method := Present ''POST'', body := Present (FormBody file)\<rparr>)
                   options1) w of
           (Inl e, w1) \<Rightarrow> (Inl e, w1)
         | (Inr response, w1) \<Rightarrow>
             if \<not> ok response
             then (Inl (FailedToUpload (Response.status response) (body_text response)), w1)
             else
               (case json response of
                  None \<Rightarrow> (Inl SyntaxError_json, w1)
                | Some resp \<Rightarrow>
                    (case js_prop (Some resp) ''data'' of
                       Inl e \<Rightarrow> (Inl e, w1)
                     | Inr d \<Rightarrow>
                         (case js_prop d ''download_url'' of
                            Inl e \<Rightarrow> (Inl e, w1)
                          | Inr url \<Rightarrow> (Inr url, w1)))))"

section \<open>Construction\<close>

text \<open>
  \<open>getEnvVar\<close>: \<open>process.env[name]\<close> when \<open>process\<close> and \<open>process.env\<close> exist and the value is
  truthy. The environment is \<open>None\<close> where there is no \<open>process.env\<close>.
\<close>

definition getEnvVar :: "(string \<rightharpoonup> string) option \<Rightarrow> string \<Rightarrow> string option" where
  "getEnvVar env nm =
     (case env of
        None \<Rightarrow> None
      | Some e \<Rightarrow> (case e nm of None \<Rightarrow> None | Some v \<Rightarrow> if v = [] then None else Some v))"

text \<open>
  The constructor. \<open>Number\<close> is the conversion of an environment string to a number, with
  \<open>None\<close> for NaN; \<open>Number(undefined)\<close> is NaN.
\<close>

definition WaveSpeed_new ::
  "(string \<Rightarrow> real option) \<Rightarrow> (string \<rightharpoonup> string) option \<Rightarrow> string option \<Rightarrow> ClientOptions
     \<Rightarrow> error + WaveSpeed" where
  "WaveSpeed_new Number env key options =
     (let apiKey1 = str_or key (str_or (getEnvVar env ''WAVESPEED_API_KEY'') [])
      in if apiKey1 = [] then Inl ApiKeyRequired
         else Inr
           \<lparr>apiKey = apiKey1,
            baseUrl = str_or (ClientOptions.baseUrl options) ''https://api.wavespeed.ai/api/v3/'',
            pollInterval =
              num_or (ClientOptions.pollInterval options)
                (num_or (case getEnvVar env ''WAVESPEED_POLL_INTERVAL'' of
                           None \<Rightarrow> None | Some s \<Rightarrow> Number s) (1 / 2)),
            timeout =
              num_or (ClientOptions.timeout options)
                (num_or (case getEnvVar env ''WAVESPEED_TIMEOUT'' of
                           None \<Rightarrow> None | Some s \<Rightarrow> Number s) 120)\<rparr>)"

section \<open>Reading a trace\<close>

text \<open>The requests of a trace, in order: one for each attempt.\<close>

fun requests :: "event list \<Rightarrow> Request list" where
  "requests [] = []"
| "requests (Fetch r # es) = r # requests es"
| "requests (e # es) = requests es"

text \<open>The events of some rounds of polling, with one timer of \<open>d\<close> milliseconds between
  each round and the next.\<close>

fun rounds :: "real \<Rightarrow> event list list \<Rightarrow> event list" where
  "rounds d [] = []"
| "rounds d [t] = t"
| "rounds d (t # u # ts) = t @ PollTimer d # rounds d (u # ts)"

section \<open>Runs of the polling loop\<close>

text \<open>
  \<open>wait_run n rt this w res w'\<close> describes a run of at most \<open>n\<close> reloads of the job \<open>this\<close>
  from the state \<open>w\<close>, round by round. The states \<open>ws 0, ws 1, ...\<close> are those in which the
  rounds start, and \<open>ws 0\<close> is \<open>w\<close> itself. Each round before the last is a reload that
  succeeds and leaves the status non-terminal, followed by one poll timer. The last round,
  round \<open>k\<close>, fixes the outcome: a failing reload makes the result its error, a reload that
  leaves the status terminal makes the result the job, and a reload that leaves it
  non-terminal is the last only if it is the \<open>n\<close>-th, with the result still pending and
  the next timer set.
\<close>

definition wait_run ::
  "nat \<Rightarrow> runtime \<Rightarrow> nat \<Rightarrow> world \<Rightarrow> (error + nat) option \<Rightarrow> world \<Rightarrow> bool" where
  "wait_run n rt this w res w' =
    (\<exists>k ws. k < n \<and> ws 0 = w
       \<and> (\<forall>i<k. \<exists>wb. reload rt this (ws i) = (Inr this, wb)
               \<and> \<not> terminal (status (heap wb this))
               \<and> ws (Suc i) = wb\<lparr>trace := trace wb @
                    [PollTimer (WaveSpeed.pollInterval (client (heap w this)) * 1000)]\<rparr>)
       \<and> (\<exists>ra wb. reload rt this (ws k) = (ra, wb)
             \<and> (case ra of
                  Inl e \<Rightarrow> res = Some (Inl e) \<and> w' = wb
                | Inr u \<Rightarrow>
                    if terminal (status (heap wb this))
                    then res = Some (Inr this) \<and> w' = wb
                    else res = None \<and> Suc k = n
                       \<and> w' = wb\<lparr>trace := trace wb @
                            [PollTimer (WaveSpeed.pollInterval (client (heap w this)) * 1000)]\<rparr>)))"

section \<open>The polling loop as the specification words it\<close>

text \<open>
  The specification's loop for \<open>wait\<close>: "sleep for the configured poll interval, call
  reload, and repeat until status is terminal". \<open>spec_wait\<close> follows these words, for
  comparison with \<open>wait\<close> above, which follows the source.
\<close>

fun spec_poll :: "nat \<Rightarrow> runtime \<Rightarrow> nat \<Rightarrow> world \<Rightarrow> (error + nat) option \<times> world" where
  "spec_poll 0 rt this w = (None, w)"
| "spec_poll (Suc n) rt this w =
     (case reload rt this
             (w\<lparr>trace := trace w @
                [PollTimer (WaveSpeed.pollInterval (client (heap w this)) * 1000)]\<rparr>) of
        (Inl e, w1) \<Rightarrow> (Some (Inl e), w1)
      | (Inr updated, w1) \<Rightarrow>
          if terminal (status (heap w1 updated))
          then (Some (Inr updated), w1)
          else spec_poll n rt this w1)"

definition spec_wait :: "nat \<Rightarrow> runtime \<Rightarrow> nat \<Rightarrow> world \<Rightarrow> (error + nat) option \<times> world" where
  "spec_wait n rt this w =
     (if terminal (status (heap w this)) then (Some (Inr this), w)
      else spec_poll n rt this w)"

section \<open>Concrete clients, jobs and services\<close>

text \<open>The client \<open>new WaveSpeed('test-api-key')\<close> builds where no environment variable is set.\<close>

definition client0 :: WaveSpeed where
  "client0 = \<lparr>apiKey = ''test-api-key'', baseUrl = ''https://api.wavespeed.ai/api/v3/'',
     pollInterval = 1 / 2, timeout = 120\<rparr>"

text \<open>A run whose \<open>k\<close>-th attempt has the outcome \<open>f k\<close>.\<close>

definition rt_of :: "(nat \<Rightarrow> outcome) \<Rightarrow> runtime" where
  "rt_of f = \<lparr>net = f, random = (\<lambda>k. Finite 1 (- 1)), number_to_string = (\<lambda>x. [])\<rparr>"

definition resp_of :: "int \<Rightarrow> Response" where
  "resp_of s = \<lparr>Response.status = s, body_text = [], json = None\<rparr>"

definition resp_json :: "json \<Rightarrow> Response" where
  "resp_json j = \<lparr>Response.status = 200, body_text = [], json = Some j\<rparr>"

text \<open>The job \<open>p1\<close> with a given status, and a state that holds it behind every reference.\<close>

definition job_of :: "string \<Rightarrow> Prediction" where
  "job_of s = \<lparr>id' = Some (JStr ''p1''), model = Some (JStr ''model-x''),
     status = Some (JStr s), input = Some (JObj [(''prompt'', JStr ''a'')]),
     outputs = Some (JArr []), urls = None, has_nsfw_contents = Some (JArr []),
     created_at = None, error = None, executionTime = None, client = client0\<rparr>"

definition world_of :: "Prediction \<Rightarrow> world" where
  "world_of p = \<lparr>attempts = 0, trace = [], heap = (\<lambda>r. p), allocated = 1\<rparr>"

definition envelope_of :: "string \<Rightarrow> json" where
  "envelope_of s = JObj [(''code'', JNum 200),
     (''data'', JObj [(''id'', JStr ''p1''), (''status'', JStr s),
        (''outputs'', JArr [JStr ''url1'']), (''has_nsfw_contents'', JArr [JBool False])])]"

text \<open>A service that reports the job completed; one that reports it processing once and
  completed from then on; one whose envelope carries the code 500; and the upload service.\<close>

definition rt_done :: runtime where
  "rt_done = rt_of (\<lambda>k. Responded (resp_json (envelope_of ''completed'')))"

definition rt_poll :: runtime where
  "rt_poll = rt_of (\<lambda>k. Responded (resp_json
     (envelope_of (if k = 0 then ''processing'' else ''completed''))))"

definition rt_code :: runtime where
  "rt_code = rt_of (\<lambda>k. Responded (resp_json
     (JObj [(''code'', JNum 500), (''message'', JStr ''internal error'')])))"

definition rt_upload :: runtime where
  "rt_upload = rt_of (\<lambda>k. Responded (resp_json
     (JObj [(''code'', JNum 200), (''message'', JStr ''success''),
            (''data'', JObj [(''type'', JStr ''image/png''),
               (''download_url'', JStr ''https://cdn.example/file.png''),
               (''filename'', JStr ''file.png''), (''size'', JNum 4)])])))"

section \<open>Facts about rounding\<close>










section \<open>Facts about the transport layer\<close>

lemma requests_append: "requests (xs @ ys) = requests xs @ requests ys"
  by (induction xs rule: requests.induct) simp_all

lemma fetch_loop_retry_status:
  assumes "net rt (attempts w) = Responded resp" "\<not> ok resp"
    "shouldRetry (req_method req) resp" "real rc < maxR"
  shows "fetch_loop rt req maxR rc w =
     fetch_loop rt req maxR (Suc rc)
       (w\<lparr>attempts := Suc (attempts w),
          trace := trace w @
            [Fetch req,
             Warn (ByStatus (Response.status resp)) (Suc rc) maxR
               (Math_round (getBackoffTime (random rt (attempts w)) (Suc rc) (Finite 1000 0))),
             Backoff (getBackoffTime (random rt (attempts w)) (Suc rc) (Finite 1000 0))]\<rparr>)"
  using assms by (subst fetch_loop.simps) (simp add: Let_def)

lemma fetch_loop_return:
  assumes "net rt (attempts w) = Responded resp"
    "ok resp \<or> \<not> shouldRetry (req_method req) resp \<or> maxR \<le> real rc"
  shows "fetch_loop rt req maxR rc w =
     (Inr resp, w\<lparr>attempts := Suc (attempts w), trace := trace w @ [Fetch req]\<rparr>)"
  using assms by (subst fetch_loop.simps) (auto simp add: Let_def)

lemma not_ok_429: "Response.status resp = 429 \<Longrightarrow> \<not> ok resp"
  by (simp add: ok_def)

lemma shouldRetry_429: "Response.status resp = 429 \<Longrightarrow> shouldRetry m resp"
  by (simp add: shouldRetry_def Let_def)

lemma shouldRetry_5xx:
  "500 \<le> Response.status resp \<Longrightarrow> Response.status resp \<le> 599 \<Longrightarrow>
     shouldRetry m resp = (toUpperCase (str_or m ''GET'') = ''GET'')"
  by (auto simp: shouldRetry_def Let_def)

text \<open>A service that answers 429 to everything uses up the whole budget \<open>m\<close>: from retry
  count \<open>rc\<close> on, \<open>m - rc + 1\<close> attempts are made and the last response is handed back.\<close>

lemma fetch_loop_always_429:
  assumes all: "\<And>k. \<exists>resp. net rt k = Responded resp \<and> Response.status resp = 429"
  shows "rc + d = m \<Longrightarrow>
    \<exists>resp w'. fetch_loop rt req (real m) rc w = (Inr resp, w')
       \<and> net rt (attempts w + d) = Responded resp
       \<and> Response.status resp = 429
       \<and> attempts w' = attempts w + d + 1
       \<and> requests (trace w') = requests (trace w) @ replicate (d + 1) req"
proof (induction d arbitrary: rc w)
  case 0
  obtain resp where r: "net rt (attempts w) = Responded resp" "Response.status resp = 429"
    using all by blast
  have "fetch_loop rt req (real m) rc w =
     (Inr resp, w\<lparr>attempts := Suc (attempts w), trace := trace w @ [Fetch req]\<rparr>)"
    using r 0 by (intro fetch_loop_return) auto
  then show ?case using r by (simp add: requests_append)
next
  case (Suc d)
  obtain resp where r: "net rt (attempts w) = Responded resp" "Response.status resp = 429"
    using all by blast
  let ?w = "w\<lparr>attempts := Suc (attempts w),
          trace := trace w @
            [Fetch req,
             Warn (ByStatus (Response.status resp)) (Suc rc) (real m)
               (Math_round (getBackoffTime (random rt (attempts w)) (Suc rc) (Finite 1000 0))),
             Backoff (getBackoffTime (random rt (attempts w)) (Suc rc) (Finite 1000 0))]\<rparr>"
  have lt: "real rc < real m" using Suc.prems by simp
  have step: "fetch_loop rt req (real m) rc w = fetch_loop rt req (real m) (Suc rc) ?w"
    using fetch_loop_retry_status[OF r(1) not_ok_429[OF r(2)] shouldRetry_429[OF r(2)] lt] .
  have "Suc rc + d = m" using Suc.prems by simp
  from Suc.IH[OF this, of ?w] step show ?case
    by (simp add: requests_append replicate_append_same)
qed

text \<open>The loop touches neither the objects nor the allocation mark.\<close>

lemma fetch_loop_frame:
  "fetch_loop rt req maxR rc w = (res, w') \<Longrightarrow> heap w' = heap w \<and> allocated w' = allocated w"
proof (induction rt req maxR rc w rule: fetch_loop.induct)
  case (1 rt req maxR retryCount w)
  show ?case
  proof (cases "net rt (attempts w)")
    case (Responded response)
    show ?thesis
    proof (cases "ok response \<or> \<not> shouldRetry (req_method req) response \<or> maxR \<le> real retryCount")
      case True
      with Responded "1.prems" show ?thesis
        by (subst (asm) fetch_loop.simps) (auto simp: Let_def)
    next
      case False
      with Responded "1.prems" "1.IH"(1)[OF refl refl Responded False refl refl] show ?thesis
        by (subst (asm) fetch_loop.simps) (auto simp: Let_def)
    qed
  next
    case (Threw e)
    show ?thesis
    proof (cases "retryable_exn e \<and> real retryCount < maxR")
      case True
      with Threw "1.prems" "1.IH"(2)[OF refl refl Threw True refl refl] show ?thesis
        by (subst (asm) fetch_loop.simps) (auto simp: Let_def)
    next
      case False
      with Threw "1.prems" show ?thesis
        by (subst (asm) fetch_loop.simps) (auto simp: Let_def)
    qed
  qed
qed

text \<open>Its first effect is an attempt, and it sets no poll timer.\<close>

lemma fetch_loop_trace:
  "fetch_loop rt req maxR rc w = (res, w') \<Longrightarrow>
     \<exists>evs. trace w' = trace w @ Fetch req # evs \<and> (\<forall>d. PollTimer d \<notin> set evs)"
proof (induction rt req maxR rc w rule: fetch_loop.induct)
  case (1 rt req maxR retryCount w)
  show ?case
  proof (cases "net rt (attempts w)")
    case (Responded response)
    show ?thesis
    proof (cases "ok response \<or> \<not> shouldRetry (req_method req) response \<or> maxR \<le> real retryCount")
      case True
      with Responded "1.prems" show ?thesis
        by (subst (asm) fetch_loop.simps) (auto simp: Let_def)
    next
      case False
      with Responded "1.prems" "1.IH"(1)[OF refl refl Responded False refl refl] show ?thesis
        by (subst (asm) fetch_loop.simps) (auto simp: Let_def)
    qed
  next
    case (Threw e)
    show ?thesis
    proof (cases "retryable_exn e \<and> real retryCount < maxR")
      case True
      with Threw "1.prems" "1.IH"(2)[OF refl refl Threw True refl refl] show ?thesis
        by (subst (asm) fetch_loop.simps) (auto simp: Let_def)
    next
      case False
      with Threw "1.prems" show ?thesis
        by (subst (asm) fetch_loop.simps) (auto simp: Let_def)
    qed
  qed
qed

lemma fetchWithTimeout_frame:
  "fetchWithTimeout rt c path options w = (res, w') \<Longrightarrow>
     heap w' = heap w \<and> allocated w' = allocated w"
  unfolding fetchWithTimeout_def by (rule fetch_loop_frame)

lemma fetchWithTimeout_trace:
  "fetchWithTimeout rt c path options w = (res, w') \<Longrightarrow>
     \<exists>evs. trace w' = trace w @ Fetch (build_request c path options) # evs
        \<and> (\<forall>d. PollTimer d \<notin> set evs)"
  unfolding fetchWithTimeout_def by (rule fetch_loop_trace)

lemma fetchWithTimeout_ok:
  assumes "net rt (attempts w) = Responded resp" "ok resp"
  shows "fetchWithTimeout rt c path options w =
     (Inr resp, w\<lparr>attempts := Suc (attempts w),
                  trace := trace w @ [Fetch (build_request c path options)]\<rparr>)"
  unfolding fetchWithTimeout_def using assms by (intro fetch_loop_return) simp_all

section \<open>Facts about reload\<close>

lemma reload_world:
  assumes "reload rt this w = (res, w1)"
  obtains r w0 where
    "fetchWithTimeout rt (client (heap w this)) (reload_path rt (heap w this)) no_options w = (r, w0)"
    "attempts w1 = attempts w0" "trace w1 = trace w0" "allocated w1 = allocated w"
    "(res = Inr this \<and> (\<exists>up. heap w1 = (heap w)(this := up) \<and> client up = client (heap w this)))
       \<or> ((\<exists>e. res = Inl e) \<and> heap w1 = heap w)"
proof -
  let ?c = "client (heap w this)"
  obtain r w0 where f: "fetchWithTimeout rt ?c (reload_path rt (heap w this)) no_options w = (r, w0)"
    by (cases "fetchWithTimeout rt ?c (reload_path rt (heap w this)) no_options w")
  have fr: "heap w0 = heap w" "allocated w0 = allocated w"
    using fetchWithTimeout_frame[OF f] by simp_all
  have "attempts w1 = attempts w0 \<and> trace w1 = trace w0 \<and> allocated w1 = allocated w
    \<and> ((res = Inr this \<and> (\<exists>up. heap w1 = (heap w)(this := up) \<and> client up = ?c))
       \<or> ((\<exists>e. res = Inl e) \<and> heap w1 = heap w))"
    using assms f fr
    by (auto simp: reload_def Prediction_new_def split: sum.splits if_splits option.splits)
  with f that show thesis by blast
qed

lemma reload_trace:
  assumes "reload rt this w = (res, w1)"
  shows "\<exists>req evs. trace w1 = trace w @ Fetch req # evs \<and> (\<forall>d. PollTimer d \<notin> set evs)"
proof -
  from assms obtain r w0 where
    f: "fetchWithTimeout rt (client (heap w this)) (reload_path rt (heap w this)) no_options w = (r, w0)"
    and t: "trace w1 = trace w0"
    by (rule reload_world)
  from fetchWithTimeout_trace[OF f] t show ?thesis by auto
qed

lemma reload_client:
  assumes "reload rt this w = (res, w1)"
  shows "client (heap w1 this) = client (heap w this)"
  using assms by (rule reload_world) auto

lemma reload_result:
  assumes "reload rt this w = (Inr u, w1)"
  shows "u = this"
  using assms by (rule reload_world) auto

lemma rounds_Cons: "ts \<noteq> [] \<Longrightarrow> rounds d (t # ts) = t @ PollTimer d # rounds d ts"
  by (cases ts) simp_all

text \<open>
  A poll of at least one round: its events are those of its reloads, the first reload
  coming first and one timer of the poll interval between each reload and the next; a
  poll still pending after \<open>n\<close> reloads has made all \<open>n\<close> and has set the timer for the next.
\<close>

lemma checkStatus_rounds:
  "0 < n \<Longrightarrow> checkStatus n rt this w = (res, w') \<Longrightarrow>
     (\<exists>ts. ts \<noteq> [] \<and> length ts \<le> n
        \<and> trace w' = trace w
             @ rounds (WaveSpeed.pollInterval (client (heap w this)) * 1000) ts
             @ (case res of
                  None \<Rightarrow> [PollTimer (WaveSpeed.pollInterval (client (heap w this)) * 1000)]
                | Some r \<Rightarrow> [])
        \<and> (\<forall>t \<in> set ts.
              (\<exists>req evs. t = Fetch req # evs \<and> (\<forall>d. PollTimer d \<notin> set evs))
            \<and> (\<exists>wa ra wb. reload rt this wa = (ra, wb) \<and> trace wb = trace wa @ t))
        \<and> (res = None \<longrightarrow> length ts = n))
     \<and> (\<forall>r. res = Some (Inr r) \<longrightarrow> r = this \<and> terminal (status (heap w' this)))"
proof (induction n arbitrary: w)
  case 0
  then show ?case by simp
next
  case (Suc n)
  let ?d = "WaveSpeed.pollInterval (client (heap w this)) * 1000"
  let ?blk = "\<lambda>t. (\<exists>req evs. t = Fetch req # evs \<and> (\<forall>d. PollTimer d \<notin> set evs))
            \<and> (\<exists>wa ra wb. reload rt this wa = (ra, wb) \<and> trace wb = trace wa @ t)"
  let ?tail = "case res of None \<Rightarrow> [PollTimer ?d] | Some r \<Rightarrow> []"
  obtain r1 w1 where rl: "reload rt this w = (r1, w1)"
    by (cases "reload rt this w")
  from reload_trace[OF rl] obtain req evs where
    t1: "trace w1 = trace w @ Fetch req # evs" "\<forall>d. PollTimer d \<notin> set evs"
    by blast
  let ?t = "Fetch req # evs"
  have blk: "?blk ?t"
    using rl t1 by blast
  have cl: "client (heap w1 this) = client (heap w this)"
    by (rule reload_client[OF rl])
  show ?case
  proof (cases r1)
    case (Inl e)
    with Suc.prems rl have "res = Some (Inl e)" "w' = w1" by simp_all
    with t1 blk show ?thesis
      by (intro conjI exI[of _ "[?t]"]) auto
  next
    case (Inr u)
    with rl have u: "u = this" by (simp add: reload_result)
    show ?thesis
    proof (cases "terminal (status (heap w1 this))")
      case True
      with Suc.prems rl Inr u have "res = Some (Inr this)" "w' = w1" by simp_all
      with t1 blk True show ?thesis
        by (intro conjI exI[of _ "[?t]"]) auto
    next
      case False
      let ?w2 = "w1\<lparr>trace := trace w1 @ [PollTimer ?d]\<rparr>"
      from Suc.prems rl Inr u False cl
      have rec: "checkStatus n rt this ?w2 = (res, w')" by simp
      show ?thesis
      proof (cases n)
        case 0
        with rec have "res = None" "w' = ?w2" by simp_all
        with t1 blk 0 show ?thesis
          by (intro conjI exI[of _ "[?t]"]) auto
      next
        case (Suc k)
        then have "0 < n" by simp
        have d2: "WaveSpeed.pollInterval (client (heap ?w2 this)) * 1000 = ?d"
          using cl by simp
        from Suc.IH[OF \<open>0 < n\<close> rec, unfolded d2] obtain ts where
          ts: "ts \<noteq> []" "length ts \<le> n" "trace w' = trace ?w2 @ rounds ?d ts @ ?tail"
            "\<forall>t \<in> set ts. ?blk t" "res = None \<longrightarrow> length ts = n"
          and fin: "\<forall>r. res = Some (Inr r) \<longrightarrow> r = this \<and> terminal (status (heap w' this))"
          by blast
        have "trace w' = trace w @ rounds ?d (?t # ts) @ ?tail"
          using ts(1,3) t1(1) by (simp add: rounds_Cons)
        with ts blk show ?thesis
          by (intro conjI exI[of _ "?t # ts"] fin) simp_all
      qed
    qed
  qed
qed

text \<open>
  The same poll, round by round: it reloads from the state it starts in, goes on only
  after a reload that succeeded and left the job non-terminal, setting the timer, and
  settles at the first reload that fails or reports a terminal status.
\<close>

lemma checkStatus_run:
  "0 < n \<Longrightarrow> checkStatus n rt this w = (res, w') \<Longrightarrow>
     \<exists>k ws. k < n \<and> ws 0 = w
       \<and> (\<forall>i<k. \<exists>wb. reload rt this (ws i) = (Inr this, wb)
               \<and> \<not> terminal (status (heap wb this))
               \<and> ws (Suc i) = wb\<lparr>trace := trace wb @
                    [PollTimer (WaveSpeed.pollInterval (client (heap w this)) * 1000)]\<rparr>)
       \<and> (\<exists>ra wb. reload rt this (ws k) = (ra, wb)
             \<and> (case ra of
                  Inl e \<Rightarrow> res = Some (Inl e) \<and> w' = wb
                | Inr u \<Rightarrow>
                    if terminal (status (heap wb this))
                    then res = Some (Inr this) \<and> w' = wb
                    else res = None \<and> Suc k = n
                       \<and> w' = wb\<lparr>trace := trace wb @
                            [PollTimer (WaveSpeed.pollInterval (client (heap w this)) * 1000)]\<rparr>))"
proof (induction n arbitrary: w)
  case 0
  then show ?case by simp
next
  case (Suc n)
  let ?d = "WaveSpeed.pollInterval (client (heap w this)) * 1000"
  obtain r1 w1 where rl: "reload rt this w = (r1, w1)"
    by (cases "reload rt this w")
  have cl: "client (heap w1 this) = client (heap w this)"
    by (rule reload_client[OF rl])
  let ?w2 = "w1\<lparr>trace := trace w1 @ [PollTimer ?d]\<rparr>"
  show ?case
  proof (cases r1)
    case (Inl e)
    with Suc.prems rl have "res = Some (Inl e)" "w' = w1" by simp_all
    with rl Inl show ?thesis
      by (intro exI[of _ 0] exI[of _ "\<lambda>i. w"]) simp
  next
    case (Inr u)
    with rl have u: "u = this" by (simp add: reload_result)
    show ?thesis
    proof (cases "terminal (status (heap w1 this))")
      case True
      with Suc.prems rl Inr u have "res = Some (Inr this)" "w' = w1" by simp_all
      with rl Inr u True show ?thesis
        by (intro exI[of _ 0] exI[of _ "\<lambda>i. w"]) simp
    next
      case False
      from Suc.prems rl Inr u False cl
      have rec: "checkStatus n rt this ?w2 = (res, w')" by simp
      show ?thesis
      proof (cases n)
        case 0
        with rec have "res = None" "w' = ?w2" by simp_all
        with rl Inr u False 0 show ?thesis
          by (intro exI[of _ 0] exI[of _ "\<lambda>i. w"]) simp
      next
        case (Suc m)
        then have "0 < n" by simp
        have d2: "WaveSpeed.pollInterval (client (heap ?w2 this)) * 1000 = ?d"
          using cl by simp
        from Suc.IH[OF \<open>0 < n\<close> rec, unfolded d2] obtain k ws where
          k: "k < n" and ws0: "ws 0 = ?w2"
          and mid: "\<forall>i<k. \<exists>wb. reload rt this (ws i) = (Inr this, wb)
               \<and> \<not> terminal (status (heap wb this))
               \<and> ws (Suc i) = wb\<lparr>trace := trace wb @ [PollTimer ?d]\<rparr>"
          and fin: "\<exists>ra wb. reload rt this (ws k) = (ra, wb)
             \<and> (case ra of
                  Inl e \<Rightarrow> res = Some (Inl e) \<and> w' = wb
                | Inr u \<Rightarrow>
                    if terminal (status (heap wb this))
                    then res = Some (Inr this) \<and> w' = wb
                    else res = None \<and> Suc k = n
                       \<and> w' = wb\<lparr>trace := trace wb @ [PollTimer ?d]\<rparr>)"
          by blast
        let ?ws = "\<lambda>i. case i of 0 \<Rightarrow> w | Suc j \<Rightarrow> ws j"
        have a: "Suc k < Suc n" using k by simp
        have b: "?ws 0 = w" by simp
        have c: "\<forall>i<Suc k. \<exists>wb. reload rt this (?ws i) = (Inr this, wb)
               \<and> \<not> terminal (status (heap wb this))
               \<and> ?ws (Suc i) = wb\<lparr>trace := trace wb @ [PollTimer ?d]\<rparr>"
        proof (intro allI impI)
          fix i assume i: "i < Suc k"
          show "\<exists>wb. reload rt this (?ws i) = (Inr this, wb)
               \<and> \<not> terminal (status (heap wb this))
               \<and> ?ws (Suc i) = wb\<lparr>trace := trace wb @ [PollTimer ?d]\<rparr>"
          proof (cases i)
            case 0
            with rl Inr u False ws0 show ?thesis by simp
          next
            case (Suc j)
            with i have "j < k" by simp
            with mid Suc show ?thesis by simp
          qed
        qed
        have d: "\<exists>ra wb. reload rt this (?ws (Suc k)) = (ra, wb)
             \<and> (case ra of
                  Inl e \<Rightarrow> res = Some (Inl e) \<and> w' = wb
                | Inr u \<Rightarrow>
                    if terminal (status (heap wb this))
                    then res = Some (Inr this) \<and> w' = wb
                    else res = None \<and> Suc (Suc k) = Suc n
                       \<and> w' = wb\<lparr>trace := trace wb @ [PollTimer ?d]\<rparr>)"
        proof -
          from fin obtain ra wb where x: "reload rt this (ws k) = (ra, wb)"
            and y: "case ra of
                  Inl e \<Rightarrow> res = Some (Inl e) \<and> w' = wb
                | Inr u \<Rightarrow>
                    if terminal (status (heap wb this))
                    then res = Some (Inr this) \<and> w' = wb
                    else res = None \<and> Suc k = n
                       \<and> w' = wb\<lparr>trace := trace wb @ [PollTimer ?d]\<rparr>"
            by blast
          have y': "case ra of
                  Inl e \<Rightarrow> res = Some (Inl e) \<and> w' = wb
                | Inr u \<Rightarrow>
                    if terminal (status (heap wb this))
                    then res = Some (Inr this) \<and> w' = wb
                    else res = None \<and> Suc (Suc k) = Suc n
                       \<and> w' = wb\<lparr>trace := trace wb @ [PollTimer ?d]\<rparr>"
            using y by (cases ra) auto
          have "reload rt this (?ws (Suc k)) = (ra, wb)" using x by simp
          with y' show ?thesis by blast
        qed
        from a b c d show ?thesis
          by (intro exI[of _ "Suc k"] exI[of _ ?ws] conjI)
      qed
    qed
  qed
qed

text \<open>A run has one outcome: the description above leaves no choice of result or of
  final state.\<close>

lemma wait_run_unique:
  assumes "wait_run n rt this w res1 w1" "wait_run n rt this w res2 w2"
  shows "res1 = res2 \<and> w1 = w2"
proof -
  let ?d = "WaveSpeed.pollInterval (client (heap w this)) * 1000"
  from assms(1) obtain k1 ws1 where k1: "k1 < n" and z1: "ws1 0 = w"
    and m1: "\<forall>i<k1. \<exists>wb. reload rt this (ws1 i) = (Inr this, wb)
               \<and> \<not> terminal (status (heap wb this))
               \<and> ws1 (Suc i) = wb\<lparr>trace := trace wb @ [PollTimer ?d]\<rparr>"
    and f1: "\<exists>ra wb. reload rt this (ws1 k1) = (ra, wb)
             \<and> (case ra of Inl e \<Rightarrow> res1 = Some (Inl e) \<and> w1 = wb
                | Inr u \<Rightarrow> if terminal (status (heap wb this))
                    then res1 = Some (Inr this) \<and> w1 = wb
                    else res1 = None \<and> Suc k1 = n
                       \<and> w1 = wb\<lparr>trace := trace wb @ [PollTimer ?d]\<rparr>)"
    unfolding wait_run_def by blast
  from assms(2) obtain k2 ws2 where k2: "k2 < n" and z2: "ws2 0 = w"
    and m2: "\<forall>i<k2. \<exists>wb. reload rt this (ws2 i) = (Inr this, wb)
               \<and> \<not> terminal (status (heap wb this))
               \<and> ws2 (Suc i) = wb\<lparr>trace := trace wb @ [PollTimer ?d]\<rparr>"
    and f2: "\<exists>ra wb. reload rt this (ws2 k2) = (ra, wb)
             \<and> (case ra of Inl e \<Rightarrow> res2 = Some (Inl e) \<and> w2 = wb
                | Inr u \<Rightarrow> if terminal (status (heap wb this))
                    then res2 = Some (Inr this) \<and> w2 = wb
                    else res2 = None \<and> Suc k2 = n
                       \<and> w2 = wb\<lparr>trace := trace wb @ [PollTimer ?d]\<rparr>)"
    unfolding wait_run_def by blast
  have same: "i \<le> k1 \<Longrightarrow> i \<le> k2 \<Longrightarrow> ws1 i = ws2 i" for i
  proof (induction i)
    case 0
    show ?case by (simp add: z1 z2)
  next
    case (Suc i)
    then have e: "ws1 i = ws2 i" and a: "i < k1" and b: "i < k2" by simp_all
    from m1 a obtain wb1 where "reload rt this (ws1 i) = (Inr this, wb1)"
      "ws1 (Suc i) = wb1\<lparr>trace := trace wb1 @ [PollTimer ?d]\<rparr>" by blast
    moreover from m2 b obtain wb2 where "reload rt this (ws2 i) = (Inr this, wb2)"
      "ws2 (Suc i) = wb2\<lparr>trace := trace wb2 @ [PollTimer ?d]\<rparr>" by blast
    ultimately show ?case using e by simp
  qed
  have less: False if lt: "ka < kb" and kb: "kb < n"
    and eq: "wsa ka = wsb ka"
    and mb: "\<forall>i<kb. \<exists>wb. reload rt this (wsb i) = (Inr this, wb)
               \<and> \<not> terminal (status (heap wb this))
               \<and> wsb (Suc i) = wb\<lparr>trace := trace wb @ [PollTimer ?d]\<rparr>"
    and fa: "\<exists>ra wb. reload rt this (wsa ka) = (ra, wb)
             \<and> (case ra of Inl e \<Rightarrow> ra1 = Some (Inl e) \<and> wa = wb
                | Inr u \<Rightarrow> if terminal (status (heap wb this))
                    then ra1 = Some (Inr this) \<and> wa = wb
                    else ra1 = None \<and> Suc ka = n
                       \<and> wa = wb\<lparr>trace := trace wb @ [PollTimer ?d]\<rparr>)"
    for ka kb wsa wsb ra1 wa
  proof -
    from mb lt obtain wb where r: "reload rt this (wsb ka) = (Inr this, wb)"
      and nt: "\<not> terminal (status (heap wb this))" by blast
    from fa r eq nt have "Suc ka = n" by auto
    with lt kb show False by simp
  qed
  have "k1 = k2"
  proof (rule ccontr)
    assume "k1 \<noteq> k2"
    then consider "k1 < k2" | "k2 < k1" by linarith
    then show False
    proof cases
      case 1
      then have "ws1 k1 = ws2 k1" by (intro same) simp_all
      from less[of k1 k2 ws1 ws2 res1 w1] 1 k2 this m2 f1 show False by blast
    next
      case 2
      then have "ws2 k2 = ws1 k2" by (intro same[symmetric]) simp_all
      from less[of k2 k1 ws2 ws1 res2 w2] 2 k1 this m1 f2 show False by blast
    qed
  qed
  then have "ws1 k1 = ws2 k2" using same[of k1] by simp
  from f1 obtain ra wb where r1: "reload rt this (ws1 k1) = (ra, wb)"
    and c1: "case ra of Inl e \<Rightarrow> res1 = Some (Inl e) \<and> w1 = wb
                | Inr u \<Rightarrow> if terminal (status (heap wb this))
                    then res1 = Some (Inr this) \<and> w1 = wb
                    else res1 = None \<and> Suc k1 = n
                       \<and> w1 = wb\<lparr>trace := trace wb @ [PollTimer ?d]\<rparr>"
    by blast
  from f2 obtain ra' wb' where r2: "reload rt this (ws2 k2) = (ra', wb')"
    and c2: "case ra' of Inl e \<Rightarrow> res2 = Some (Inl e) \<and> w2 = wb'
                | Inr u \<Rightarrow> if terminal (status (heap wb' this))
                    then res2 = Some (Inr this) \<and> w2 = wb'
                    else res2 = None \<and> Suc k2 = n
                       \<and> w2 = wb'\<lparr>trace := trace wb' @ [PollTimer ?d]\<rparr>"
    by blast
  from r1 r2 \<open>ws1 k1 = ws2 k2\<close> have "ra' = ra" "wb' = wb" by simp_all
  with c1 c2 show ?thesis
    by (cases ra; cases "terminal (status (heap wb this))") simp_all
qed

section \<open>Facts about object spread\<close>

text \<open>A spread copies every own property of the caller's options, also one whose value is
  \<open>undefined\<close>, over the default; only a key the caller's object lacks leaves the default.\<close>

lemma spread_own_property:
  "http_method (spread d (opts\<lparr>http_method := Undefined\<rparr>)) = Undefined"
  "http_method (spread d (opts\<lparr>http_method := Present v\<rparr>)) = Present v"
  "http_method (spread d (opts\<lparr>http_method := Absent\<rparr>)) = http_method d"
  by (simp_all add: spread_def or_else_def)

section \<open>Evaluating the concrete runs\<close>

lemma ok_resp_json: "ok (resp_json j)"
  by (simp add: ok_def resp_json_def)

lemma fetchWithTimeout_json:
  "fetchWithTimeout (rt_of (\<lambda>k. Responded (resp_json (g k)))) c path options w =
     (Inr (resp_json (g (attempts w))),
      w\<lparr>attempts := Suc (attempts w),
        trace := trace w @ [Fetch (build_request c path options)]\<rparr>)"
  by (intro fetchWithTimeout_ok) (simp_all add: rt_of_def ok_resp_json)

lemma fetchWithTimeout_json_unfolded:
  "fetchWithTimeout
     (rt_of (\<lambda>k. Responded \<lparr>Response.status = 200, body_text = [], json = Some (g k)\<rparr>))
     c path options w =
     (Inr \<lparr>Response.status = 200, body_text = [], json = Some (g (attempts w))\<rparr>,
      w\<lparr>attempts := Suc (attempts w),
        trace := trace w @ [Fetch (build_request c path options)]\<rparr>)"
  using fetchWithTimeout_json[of g c path options w] by (simp add: resp_json_def)

lemma reload_path_job: "reload_path rt (job_of s) = ''predictions/p1/result''"
  by (simp add: reload_path_def job_of_def js_String_def)

lemma job_of_simps:
  "client (job_of s) = client0" "status (job_of s) = Some (JStr s)"
  "id' (job_of s) = Some (JStr ''p1'')" "model (job_of s) = Some (JStr ''model-x'')"
  "WaveSpeed.pollInterval client0 = 1 / 2"
  by (simp_all add: job_of_def client0_def)

lemmas eval_job =
  wait_def spec_wait_def reload_def create_def upload_def world_of_def reload_path_job
  resp_json_def ok_def envelope_of_def Prediction_new_def terminal_def js_or_def
  fetchWithTimeout_json_unfolded job_of_simps

lemma reload_done_eval:
  "reload rt_done 0 (world_of (job_of ''processing'')) =
     (Inr 0,
      \<lparr>attempts = 1,
       trace = [Fetch (build_request client0 ''predictions/p1/result'' no_options)],
       heap = (\<lambda>r. job_of ''processing'')
         (0 := \<lparr>id' = Some (JStr ''p1''), model = None, status = Some (JStr ''completed''),
                input = None, outputs = Some (JArr [JStr ''url1'']), urls = None,
                has_nsfw_contents = Some (JArr [JBool False]), created_at = None,
                error = None, executionTime = None, client = client0\<rparr>),
       allocated = 1\<rparr>)"
  unfolding rt_done_def by (simp add: eval_job)

lemma wait_poll_eval:
  "wait 2 rt_poll 0 (world_of (job_of ''processing'')) =
     (Some (Inr 0),
      \<lparr>attempts = 2,
       trace = [Fetch (build_request client0 ''predictions/p1/result'' no_options),
          PollTimer 500,
          Fetch (build_request client0 ''predictions/p1/result'' no_options)],
       heap = (\<lambda>r. job_of ''processing'')
         (0 := \<lparr>id' = Some (JStr ''p1''), model = None, status = Some (JStr ''completed''),
                input = None, outputs = Some (JArr [JStr ''url1'']), urls = None,
                has_nsfw_contents = Some (JArr [JBool False]), created_at = None,
                error = None, executionTime = None, client = client0\<rparr>),
       allocated = 1\<rparr>)"
  unfolding rt_poll_def
  by (simp add: eval_job numeral_2_eq_2 reload_path_def js_String_def)

section \<open>The claims\<close>

subsection \<open>C1: the retry cap\<close>

text \<open>
  C1. A call of \<open>fetchWithTimeout\<close> whose every attempt yields an HTTP 429 response, with
  the per-call override \<open>maxRetries = 2\<close>, makes exactly three attempts (one initial and two
  retries), all with the same request, and returns the third, still-429 response as a
  value (\<open>Inr\<close>), not as a thrown error.
\<close>

theorem fetchWithTimeout_429_retry_cap:
  assumes "\<forall>k. \<exists>resp. net rt k = Responded resp \<and> Response.status resp = 429"
    and "read_prop (maxRetries options) = Some 2"
  shows "\<exists>resp w'. fetchWithTimeout rt c path options w = (Inr resp, w')
           \<and> net rt (attempts w + 2) = Responded resp
           \<and> Response.status resp = 429
           \<and> attempts w' = attempts w + 3
           \<and> requests (trace w') = requests (trace w) @ replicate 3 (build_request c path options)"
proof -
  have all: "\<And>k. \<exists>resp. net rt k = Responded resp \<and> Response.status resp = 429"
    using assms(1) by blast
  have budget: "num_or (read_prop (maxRetries options)) 3 = real 2"
    using assms(2) by (simp add: num_or_def)
  from fetch_loop_always_429[OF all, of 0 2 2 "build_request c path options" w]
  show ?thesis
    unfolding fetchWithTimeout_def budget by auto
qed

theorem fetchWithTimeout_429_retry_cap_witness:
  "fst (fetchWithTimeout (rt_of (\<lambda>k. Responded (resp_of 429))) client0 ''/test-path''
          (no_options\<lparr>maxRetries := Present 2\<rparr>) (world_of (job_of ''processing''))) = Inr (resp_of 429)
   \<and> attempts (snd (fetchWithTimeout (rt_of (\<lambda>k. Responded (resp_of 429))) client0 ''/test-path''
          (no_options\<lparr>maxRetries := Present 2\<rparr>) (world_of (job_of ''processing'')))) = 3"
proof -
  have h1: "\<forall>k. \<exists>resp. net (rt_of (\<lambda>k. Responded (resp_of 429))) k = Responded resp
              \<and> Response.status resp = 429"
    by (simp add: rt_of_def resp_of_def)
  have h2: "read_prop (maxRetries (no_options\<lparr>maxRetries := Present 2\<rparr>)) = Some 2"
    by simp
  from fetchWithTimeout_429_retry_cap[OF h1 h2, of client0 "''/test-path''"
      "world_of (job_of ''processing'')"]
  show ?thesis by (auto simp: rt_of_def world_of_def)
qed

subsection \<open>C2: which statuses are retried\<close>

text \<open>
  C2. A 429 response is retryable whatever the method. A 5xx response is retryable exactly
  when the request method, upper-cased and defaulting to GET, is GET. So, with a retry
  budget above zero (the default is 3), a GET that gets a 503 and then a 200 makes two
  attempts and yields the 200 response; and a request of any other method, POST among
  them, that gets a 503 makes one attempt and yields the 503 response.
\<close>

theorem retry_policy_by_method:
  "(Response.status resp = 429 \<longrightarrow> shouldRetry m resp)
    \<and> (500 \<le> Response.status resp \<and> Response.status resp \<le> 599 \<longrightarrow>
         shouldRetry m resp = (toUpperCase (str_or m ''GET'') = ''GET''))
    \<and> (toUpperCase (str_or (read_prop (http_method options)) ''GET'') = ''GET''
        \<and> 0 < num_or (read_prop (maxRetries options)) 3
        \<and> net rt (attempts w) = Responded r1 \<and> Response.status r1 = 503
        \<and> net rt (Suc (attempts w)) = Responded r2 \<and> Response.status r2 = 200 \<longrightarrow>
         (\<exists>w'. fetchWithTimeout rt c path options w = (Inr r2, w')
            \<and> attempts w' = attempts w + 2))
    \<and> (toUpperCase (str_or (read_prop (http_method options)) ''GET'') \<noteq> ''GET''
        \<and> net rt (attempts w) = Responded r1 \<and> Response.status r1 = 503 \<longrightarrow>
         (\<exists>w'. fetchWithTimeout rt c path options w = (Inr r1, w')
            \<and> attempts w' = attempts w + 1))"
proof (intro conjI impI)
  assume "Response.status resp = 429"
  then show "shouldRetry m resp" by (rule shouldRetry_429)
next
  assume "500 \<le> Response.status resp \<and> Response.status resp \<le> 599"
  then show "shouldRetry m resp = (toUpperCase (str_or m ''GET'') = ''GET'')"
    by (simp add: shouldRetry_5xx)
next
  let ?req = "build_request c path options"
  let ?m = "num_or (read_prop (maxRetries options)) 3"
  assume a: "toUpperCase (str_or (read_prop (http_method options)) ''GET'') = ''GET''
        \<and> 0 < num_or (read_prop (maxRetries options)) 3
        \<and> net rt (attempts w) = Responded r1 \<and> Response.status r1 = 503
        \<and> net rt (Suc (attempts w)) = Responded r2 \<and> Response.status r2 = 200"
  have m: "req_method ?req = read_prop (http_method options)" by (simp add: build_request_def)
  have retry: "shouldRetry (req_method ?req) r1"
    using a by (simp add: m shouldRetry_5xx)
  have nok: "\<not> ok r1" using a by (simp add: ok_def)
  have lt: "real 0 < ?m" using a by simp
  let ?w1 = "w\<lparr>attempts := Suc (attempts w),
          trace := trace w @
            [Fetch ?req,
             Warn (ByStatus (Response.status r1)) (Suc 0) ?m
               (Math_round (getBackoffTime (random rt (attempts w)) (Suc 0) (Finite 1000 0))),
             Backoff (getBackoffTime (random rt (attempts w)) (Suc 0) (Finite 1000 0))]\<rparr>"
  have s1: "fetch_loop rt ?req ?m 0 w = fetch_loop rt ?req ?m (Suc 0) ?w1"
    using a by (intro fetch_loop_retry_status[OF _ nok retry lt]) simp
  have ok2: "ok r2" using a by (simp add: ok_def)
  have s2: "fetch_loop rt ?req ?m (Suc 0) ?w1 =
      (Inr r2, ?w1\<lparr>attempts := Suc (attempts ?w1), trace := trace ?w1 @ [Fetch ?req]\<rparr>)"
    using a ok2 by (intro fetch_loop_return) auto
  show "\<exists>w'. fetchWithTimeout rt c path options w = (Inr r2, w') \<and> attempts w' = attempts w + 2"
    unfolding fetchWithTimeout_def s1 s2 by simp
next
  let ?req = "build_request c path options"
  let ?m = "num_or (read_prop (maxRetries options)) 3"
  assume a: "toUpperCase (str_or (read_prop (http_method options)) ''GET'') \<noteq> ''GET''
        \<and> net rt (attempts w) = Responded r1 \<and> Response.status r1 = 503"
  have m: "req_method ?req = read_prop (http_method options)" by (simp add: build_request_def)
  have "\<not> shouldRetry (req_method ?req) r1"
    using a by (simp add: m shouldRetry_5xx)
  then have "fetch_loop rt ?req ?m 0 w =
      (Inr r1, w\<lparr>attempts := Suc (attempts w), trace := trace w @ [Fetch ?req]\<rparr>)"
    using a by (intro fetch_loop_return) auto
  then show "\<exists>w'. fetchWithTimeout rt c path options w = (Inr r1, w') \<and> attempts w' = attempts w + 1"
    unfolding fetchWithTimeout_def by simp
qed

theorem retry_policy_by_method_witness:
  "shouldRetry (Some ''POST'') (resp_of 429)
   \<and> \<not> shouldRetry (Some ''POST'') (resp_of 503)
   \<and> shouldRetry (Some ''get'') (resp_of 503)
   \<and> fst (fetchWithTimeout (rt_of (\<lambda>k. Responded (if k = 0 then resp_of 503 else resp_of 200)))
        client0 ''/test-path'' (no_options\<lparr>http_method := Present ''GET''\<rparr>)
        (world_of (job_of ''processing''))) = Inr (resp_of 200)
   \<and> attempts (snd (fetchWithTimeout (rt_of (\<lambda>k. Responded (if k = 0 then resp_of 503 else resp_of 200)))
        client0 ''/test-path'' (no_options\<lparr>http_method := Present ''GET''\<rparr>)
        (world_of (job_of ''processing'')))) = 2
   \<and> fst (fetchWithTimeout (rt_of (\<lambda>k. Responded (resp_of 503)))
        client0 ''/test-path'' (no_options\<lparr>http_method := Present ''POST''\<rparr>)
        (world_of (job_of ''processing''))) = Inr (resp_of 503)
   \<and> attempts (snd (fetchWithTimeout (rt_of (\<lambda>k. Responded (resp_of 503)))
        client0 ''/test-path'' (no_options\<lparr>http_method := Present ''POST''\<rparr>)
        (world_of (job_of ''processing'')))) = 1"
proof -
  have up: "toUpperCase ''POST'' \<noteq> ''GET''" "toUpperCase ''GET'' = ''GET''"
    "toUpperCase ''get'' = ''GET''"
    by (simp_all add: toUpperCase_def char_upper_def)
  note a = retry_policy_by_method[of "resp_of 429" "Some ''POST''"
      "no_options\<lparr>http_method := Present ''GET''\<rparr>"
      "rt_of (\<lambda>k. Responded (if k = 0 then resp_of 503 else resp_of 200))"
      "world_of (job_of ''processing'')" "resp_of 503" "resp_of 200" client0 "''/test-path''"]
  note b = retry_policy_by_method[of "resp_of 503" "Some ''POST''"
      "no_options\<lparr>http_method := Present ''POST''\<rparr>"
      "rt_of (\<lambda>k. Responded (resp_of 503))"
      "world_of (job_of ''processing'')" "resp_of 503" "resp_of 200" client0 "''/test-path''"]
  note c = retry_policy_by_method[of "resp_of 503" "Some ''get''"
      "no_options\<lparr>http_method := Present ''POST''\<rparr>"
      "rt_of (\<lambda>k. Responded (resp_of 503))"
      "world_of (job_of ''processing'')" "resp_of 503" "resp_of 200" client0 "''/test-path''"]
  from a b c show ?thesis
    by (auto simp: up str_or_def num_or_def no_options_def rt_of_def resp_of_def world_of_def)
qed

subsection \<open>C3: the order of sleeping and reloading in wait\<close>

text \<open>
  C3, as amended. Every call of \<open>wait\<close> on a job whose status is not terminal is a run
  in the sense of \<open>wait_run\<close>. That is, \<open>wait\<close> calls \<open>reload\<close> at
  once, from the state it starts in, with no timer before the first reload. After a
  reload that succeeded and left the status non-terminal, and only then, it sets one timer
  of \<open>pollInterval * 1000\<close> milliseconds and reloads again. It settles at the first reload
  that fails, rejecting with that reload's error, or that leaves the status terminal,
  resolving with the same reference; it is still pending after \<open>n > 0\<close> reloads only if
  all \<open>n\<close> succeeded and left the status non-terminal, and then it has set the timer for
  the next. So the events of a \<open>wait\<close> are the events of its reloads (each starting with an
  attempt), with single poll timers between them: a timer precedes every reload but the
  first.
\<close>

theorem wait_reloads_first_then_sleeps_between:
  assumes "\<not> terminal (status (heap w this))"
    and "0 < n"
    and "wait n rt this w = (res, w')"
  shows "wait_run n rt this w res w'
     \<and> (\<exists>ts. ts \<noteq> [] \<and> length ts \<le> n
        \<and> trace w' = trace w
             @ rounds (WaveSpeed.pollInterval (client (heap w this)) * 1000) ts
             @ (case res of
                  None \<Rightarrow> [PollTimer (WaveSpeed.pollInterval (client (heap w this)) * 1000)]
                | Some r \<Rightarrow> [])
        \<and> (\<forall>t \<in> set ts.
              (\<exists>req evs. t = Fetch req # evs \<and> (\<forall>d. PollTimer d \<notin> set evs))
            \<and> (\<exists>wa ra wb. reload rt this wa = (ra, wb) \<and> trace wb = trace wa @ t))
        \<and> (res = None \<longrightarrow> length ts = n))
     \<and> (\<forall>r. res = Some (Inr r) \<longrightarrow> r = this \<and> terminal (status (heap w' this)))"
proof -
  from assms(1,3) have c: "checkStatus n rt this w = (res, w')"
    by (simp add: wait_def)
  from checkStatus_run[OF assms(2) c] checkStatus_rounds[OF assms(2) c]
  show ?thesis unfolding wait_run_def by (intro conjI) blast+
qed

theorem wait_reloads_first_then_sleeps_between_witness:
  "\<not> terminal (status (heap (world_of (job_of ''processing'')) 0))
   \<and> fst (wait 2 rt_poll 0 (world_of (job_of ''processing''))) = Some (Inr 0)
   \<and> (\<exists>ts. ts \<noteq> [] \<and> length ts \<le> 2
        \<and> trace (snd (wait 2 rt_poll 0 (world_of (job_of ''processing'')))) = rounds 500 ts
        \<and> (\<forall>t \<in> set ts.
              (\<exists>req evs. t = Fetch req # evs \<and> (\<forall>d. PollTimer d \<notin> set evs))
            \<and> (\<exists>wa ra wb. reload rt_poll 0 wa = (ra, wb) \<and> trace wb = trace wa @ t)))
   \<and> trace (snd (wait 2 rt_poll 0 (world_of (job_of ''processing''))))
       = [Fetch (build_request client0 ''predictions/p1/result'' no_options),
          PollTimer 500,
          Fetch (build_request client0 ''predictions/p1/result'' no_options)]"
proof -
  let ?w = "world_of (job_of ''processing'')"
  have h1: "\<not> terminal (status (heap ?w 0))"
    by (simp add: world_of_def job_of_def terminal_def)
  have h2: "wait 2 rt_poll 0 ?w = (Some (Inr 0), snd (wait 2 rt_poll 0 ?w))"
    by (simp add: wait_poll_eval)
  have h0: "(0::nat) < 2" by simp
  from wait_reloads_first_then_sleeps_between[OF h1 h0 h2] h1 wait_poll_eval show ?thesis
    by (simp add: world_of_def job_of_def client0_def)
qed

text \<open>
  C3 as stated fails: on a processing job whose first reload reports it completed,
  \<open>wait\<close> makes the attempt with no timer before it, where the loop of the specification
  sets a timer of 500 milliseconds first.
\<close>

theorem wait_first_reload_without_sleep:
  "trace (snd (wait 1 rt_done 0 (world_of (job_of ''processing''))))
     = [Fetch (build_request client0 ''predictions/p1/result'' no_options)]
   \<and> trace (snd (spec_wait 1 rt_done 0 (world_of (job_of ''processing''))))
     = [PollTimer 500, Fetch (build_request client0 ''predictions/p1/result'' no_options)]"
  unfolding rt_done_def by (simp add: eval_job)

subsection \<open>C4: wait on a terminal job\<close>

text \<open>
  C4. For a job whose status is \<open>completed\<close> or \<open>failed\<close>, \<open>wait\<close> resolves with the same
  reference and leaves the whole state as it was: no attempt is made, no effect is added
  to the trace, and no field of any object changes.
\<close>

theorem wait_terminal_is_noop:
  assumes "status (heap w this) = Some (JStr ''completed'')
         \<or> status (heap w this) = Some (JStr ''failed'')"
  shows "wait n rt this w = (Some (Inr this), w)"
  using assms by (simp add: wait_def terminal_def)

theorem wait_terminal_is_noop_witness:
  "wait 0 rt_done 0 (world_of (job_of ''completed''))
     = (Some (Inr 0), world_of (job_of ''completed''))"
  using wait_terminal_is_noop[of "world_of (job_of ''completed'')" 0]
  by (simp add: world_of_def job_of_def)

subsection \<open>C5: reload overwrites the object\<close>

text \<open>
  C5. When \<open>reload\<close> succeeds it returns the reference it was called on, and the object
  behind that reference is the fresh \<open>Prediction\<close> built from the \<open>data\<close> of the envelope
  the transport layer handed back: each of its ten data fields is the snapshot's (the
  property of the payload, \<open>undefined\<close> where the payload has none, and \<open>[]\<close> for a falsy
  \<open>outputs\<close> or \<open>has_nsfw_contents\<close>), whatever the field held before, and the client is
  the same. Every other object is unchanged.
\<close>

theorem reload_overwrites_every_field:
  assumes "reload rt this w = (Inr r, w')"
  shows "r = this
    \<and> (\<exists>response data d w1.
          fetchWithTimeout rt (client (heap w this)) (reload_path rt (heap w this)) no_options w
            = (Inr response, w1)
        \<and> ok response \<and> json response = Some data \<and> data \<noteq> JNull
        \<and> Prediction_new (js_get data ''data'') (client (heap w this)) = Inr (heap w' this)
        \<and> js_get data ''data'' = Some d \<and> d \<noteq> JNull
        \<and> id' (heap w' this) = js_get d ''id''
        \<and> model (heap w' this) = js_get d ''model''
        \<and> status (heap w' this) = js_get d ''status''
        \<and> input (heap w' this) = js_get d ''input''
        \<and> outputs (heap w' this) = js_or (js_get d ''outputs'') (Some (JArr []))
        \<and> urls (heap w' this) = js_get d ''urls''
        \<and> has_nsfw_contents (heap w' this) = js_or (js_get d ''has_nsfw_contents'') (Some (JArr []))
        \<and> created_at (heap w' this) = js_get d ''created_at''
        \<and> error (heap w' this) = js_get d ''error''
        \<and> executionTime (heap w' this) = js_get d ''executionTime''
        \<and> client (heap w' this) = client (heap w this)
        \<and> attempts w' = attempts w1 \<and> trace w' = trace w1 \<and> allocated w' = allocated w)
    \<and> (\<forall>other. other \<noteq> this \<longrightarrow> heap w' other = heap w other)"
proof -
  let ?c = "client (heap w this)"
  obtain res w1 where f: "fetchWithTimeout rt ?c (reload_path rt (heap w this)) no_options w = (res, w1)"
    by (cases "fetchWithTimeout rt ?c (reload_path rt (heap w this)) no_options w")
  have fr: "heap w1 = heap w" "allocated w1 = allocated w"
    using fetchWithTimeout_frame[OF f] by simp_all
  from assms f obtain response where res: "res = Inr response"
    by (cases res) (auto simp: reload_def)
  from assms f res have okr: "ok response"
    by (auto simp: reload_def split: if_splits)
  from assms f res okr obtain data where data: "json response = Some data"
    by (cases "json response") (auto simp: reload_def)
  from assms f res okr data have nn: "data \<noteq> JNull"
    by (auto simp: reload_def)
  then have p: "js_prop (Some data) ''data'' = Inr (js_get data ''data'')"
    by (cases data) simp_all
  from assms f res okr data p obtain up where
    up: "Prediction_new (js_get data ''data'') ?c = Inr up"
    and r: "r = this" and w': "w' = w1\<lparr>heap := (heap w1)(this := up)\<rparr>"
    by (cases "Prediction_new (js_get data ''data'') ?c") (auto simp: reload_def fr)
  from up obtain d where d: "js_get data ''data'' = Some d" "d \<noteq> JNull"
    and upd: "up = \<lparr>id' = js_get d ''id'',
                    model = js_get d ''model'',
                    status = js_get d ''status'',
                    input = js_get d ''input'',
                    outputs = js_or (js_get d ''outputs'') (Some (JArr [])),
                    urls = js_get d ''urls'',
                    has_nsfw_contents = js_or (js_get d ''has_nsfw_contents'') (Some (JArr [])),
                    created_at = js_get d ''created_at'',
                    error = js_get d ''error'',
                    executionTime = js_get d ''executionTime'',
                    client = ?c\<rparr>"
    by (auto simp: Prediction_new_def split: option.splits if_splits)
  have h: "heap w' this = up" by (simp add: w')
  have others: "\<forall>other. other \<noteq> this \<longrightarrow> heap w' other = heap w other"
    by (simp add: w' fr)
  have fields: "id' up = js_get d ''id''" "model up = js_get d ''model''"
    "status up = js_get d ''status''" "input up = js_get d ''input''"
    "outputs up = js_or (js_get d ''outputs'') (Some (JArr []))"
    "urls up = js_get d ''urls''"
    "has_nsfw_contents up = js_or (js_get d ''has_nsfw_contents'') (Some (JArr []))"
    "created_at up = js_get d ''created_at''" "error up = js_get d ''error''"
    "executionTime up = js_get d ''executionTime''" "client up = ?c"
    by (simp_all add: upd)
  have rest: "attempts w' = attempts w1" "trace w' = trace w1" "allocated w' = allocated w"
    by (simp_all add: w' fr)
  have "\<exists>response data d w1.
          fetchWithTimeout rt ?c (reload_path rt (heap w this)) no_options w = (Inr response, w1)
        \<and> ok response \<and> json response = Some data \<and> data \<noteq> JNull
        \<and> Prediction_new (js_get data ''data'') ?c = Inr (heap w' this)
        \<and> js_get data ''data'' = Some d \<and> d \<noteq> JNull
        \<and> id' (heap w' this) = js_get d ''id''
        \<and> model (heap w' this) = js_get d ''model''
        \<and> status (heap w' this) = js_get d ''status''
        \<and> input (heap w' this) = js_get d ''input''
        \<and> outputs (heap w' this) = js_or (js_get d ''outputs'') (Some (JArr []))
        \<and> urls (heap w' this) = js_get d ''urls''
        \<and> has_nsfw_contents (heap w' this) = js_or (js_get d ''has_nsfw_contents'') (Some (JArr []))
        \<and> created_at (heap w' this) = js_get d ''created_at''
        \<and> error (heap w' this) = js_get d ''error''
        \<and> executionTime (heap w' this) = js_get d ''executionTime''
        \<and> client (heap w' this) = ?c
        \<and> attempts w' = attempts w1 \<and> trace w' = trace w1 \<and> allocated w' = allocated w"
    using f res okr data nn up d fields rest unfolding h
    by (intro exI[of _ response] exI[of _ data] exI[of _ d] exI[of _ w1]) simp
  with r others show ?thesis by blast
qed

theorem reload_overwrites_every_field_witness:
  "fst (reload rt_done 0 (world_of (job_of ''processing''))) = Inr 0
   \<and> status (heap (snd (reload rt_done 0 (world_of (job_of ''processing'')))) 0)
       = Some (JStr ''completed'')
   \<and> outputs (heap (snd (reload rt_done 0 (world_of (job_of ''processing'')))) 0)
       = Some (JArr [JStr ''url1''])
   \<and> model (job_of ''processing'') = Some (JStr ''model-x'')
   \<and> model (heap (snd (reload rt_done 0 (world_of (job_of ''processing'')))) 0) = None"
proof -
  let ?w = "world_of (job_of ''processing'')"
  have h: "reload rt_done 0 ?w = (Inr 0, snd (reload rt_done 0 ?w))"
    by (simp add: reload_done_eval)
  have f: "fetchWithTimeout rt_done (client (heap ?w 0)) (reload_path rt_done (heap ?w 0))
             no_options ?w
           = (Inr (resp_json (envelope_of ''completed'')),
              ?w\<lparr>attempts := Suc (attempts ?w),
                 trace := trace ?w @ [Fetch (build_request (client (heap ?w 0))
                    (reload_path rt_done (heap ?w 0)) no_options)]\<rparr>)"
    unfolding rt_done_def by (rule fetchWithTimeout_json)
  from reload_overwrites_every_field[OF h] obtain response data d w1 where
    a: "fetchWithTimeout rt_done (client (heap ?w 0)) (reload_path rt_done (heap ?w 0))
          no_options ?w = (Inr response, w1)"
      "json response = Some data" "js_get data ''data'' = Some d"
    and b: "status (heap (snd (reload rt_done 0 ?w)) 0) = js_get d ''status''"
      "outputs (heap (snd (reload rt_done 0 ?w)) 0) = js_or (js_get d ''outputs'') (Some (JArr []))"
      "model (heap (snd (reload rt_done 0 ?w)) 0) = js_get d ''model''"
    by blast
  from a f have "d = JObj [(''id'', JStr ''p1''), (''status'', JStr ''completed''),
        (''outputs'', JArr [JStr ''url1'']), (''has_nsfw_contents'', JArr [JBool False])]"
    by (auto simp: resp_json_def envelope_of_def)
  with b have "status (heap (snd (reload rt_done 0 ?w)) 0) = Some (JStr ''completed'')"
    "outputs (heap (snd (reload rt_done 0 ?w)) 0) = Some (JArr [JStr ''url1''])"
    "model (heap (snd (reload rt_done 0 ?w)) 0) = None"
    by (simp_all add: js_or_def)
  moreover have "fst (reload rt_done 0 ?w) = Inr 0"
    by (simp add: reload_done_eval)
  ultimately show ?thesis
    by (simp add: job_of_simps)
qed

subsection \<open>C6: the envelope's own code\<close>

text \<open>
  C6. When the transport layer hands \<open>create\<close> a 2xx response whose JSON envelope has a
  \<open>code\<close> other than the number 200 (or no \<open>code\<close> at all), \<open>create\<close> throws its creation
  error, carrying that code, and allocates no \<open>Prediction\<close>.
\<close>

theorem create_rejects_envelope_code:
  assumes "fetchWithTimeout rt c (create_url modelId options)
             (spread (no_options\<lparr>http_method := Present ''POST'', body := Present (JsonBody inp)\<rparr>)
                (case options of None \<Rightarrow> no_options | Some opts \<Rightarrow> opts)) w = (Inr response, w1)"
    and "ok response"
    and "json response = Some data"
    and "data \<noteq> JNull"
    and "js_get data ''code'' \<noteq> Some (JNum 200)"
  shows "create rt c modelId inp options w = (Inl (FailedToCreateCode (js_get data ''code'')), w1)
     \<and> heap w1 = heap w \<and> allocated w1 = allocated w"
proof -
  have p: "js_prop (Some data) ''code'' = Inr (js_get data ''code'')"
    using assms(4) by (cases data) simp_all
  have "create rt c modelId inp options w = (Inl (FailedToCreateCode (js_get data ''code'')), w1)"
    using assms p by (simp add: create_def)
  with fetchWithTimeout_frame[OF assms(1)] show ?thesis by simp
qed

theorem create_rejects_envelope_code_witness:
  "create rt_code client0 ''model-x'' (JObj [(''prompt'', JStr ''a'')]) None
      (world_of (job_of ''processing''))
    = (Inl (FailedToCreateCode (Some (JNum 500))),
       \<lparr>attempts = 1,
        trace = [Fetch (build_request client0 ''model-x''
                  (no_options\<lparr>http_method := Present ''POST'',
                     body := Present (JsonBody (JObj [(''prompt'', JStr ''a'')]))\<rparr>))],
        heap = (\<lambda>r. job_of ''processing''), allocated = 1\<rparr>)"
proof -
  let ?w = "world_of (job_of ''processing'')"
  let ?o = "spread (no_options\<lparr>http_method := Present ''POST'',
                body := Present (JsonBody (JObj [(''prompt'', JStr ''a'')]))\<rparr>)
              (case None of None \<Rightarrow> no_options | Some opts \<Rightarrow> opts)"
  let ?data = "JObj [(''code'', JNum 500), (''message'', JStr ''internal error'')]"
  have f: "fetchWithTimeout rt_code client0 (create_url ''model-x'' None) ?o ?w
           = (Inr (resp_json ?data),
              ?w\<lparr>attempts := Suc (attempts ?w),
                 trace := trace ?w @ [Fetch (build_request client0 (create_url ''model-x'' None) ?o)]\<rparr>)"
    unfolding rt_code_def by (rule fetchWithTimeout_json)
  have sp: "spread (no_options\<lparr>http_method := Present ''POST'',
                body := Present (JsonBody (JObj [(''prompt'', JStr ''a'')]))\<rparr>) no_options
            = no_options\<lparr>http_method := Present ''POST'',
                     body := Present (JsonBody (JObj [(''prompt'', JStr ''a'')]))\<rparr>"
    by (simp add: spread_def or_else_def no_options_def)
  from create_rejects_envelope_code[OF f ok_resp_json, of ?data]
  show ?thesis
    by (simp add: resp_json_def world_of_def create_url_def sp)
qed

subsection \<open>C7: the backoff delay\<close>




subsection \<open>C8: the headers of an upload\<close>

text \<open>
  C8. An upload is to leave \<open>content-type\<close> to the multipart encoder, whatever options
  the caller passes, and to carry the bearer header. The code breaks this: \<open>upload\<close> sets
  \<open>isUpload\<close> only when it is given no options at all. Called with the options
  \<open>{timeout: 5000}\<close>, its one request carries \<open>content-type: application/json\<close> beside
  the bearer header; called with no options, its request carries the bearer header and no
  \<open>content-type\<close>.
\<close>

theorem upload_with_options_sends_json_content_type:
  "map (\<lambda>r. (req_headers r ''Authorization'', req_headers r ''content-type''))
     (requests (trace (snd (upload rt_upload client0 ''blob''
        (Some (no_options\<lparr>timeout := Present 5000\<rparr>)) (world_of (job_of ''processing''))))))
    = [(Some ''Bearer test-api-key'', Some ''application/json'')]
   \<and> map (\<lambda>r. (req_headers r ''Authorization'', req_headers r ''content-type''))
     (requests (trace (snd (upload rt_upload client0 ''blob''
        None (world_of (job_of ''processing''))))))
    = [(Some ''Bearer test-api-key'', None)]"
  unfolding rt_upload_def
  by (simp add: eval_job build_request_def compose_headers_def
      spread_def or_else_def no_options_def client0_def)

subsection \<open>C9: a client needs a credential\<close>

text \<open>
  C9. Constructing a client with no \<open>apiKey\<close> argument (or an empty one) where the
  environment gives no \<open>WAVESPEED_API_KEY\<close> throws the configuration error. The
  constructor is a function of its arguments and the environment alone: it has no access
  to the network, so the error comes before any request.
\<close>

theorem constructor_requires_api_key:
  assumes "key = None \<or> key = Some []"
    and "getEnvVar env ''WAVESPEED_API_KEY'' = None"
  shows "WaveSpeed_new Number env key options = Inl ApiKeyRequired"
  using assms by (auto simp: WaveSpeed_new_def str_or_def Let_def)

theorem constructor_requires_api_key_witness:
  "WaveSpeed_new (\<lambda>s. None) (Some Map.empty) None
     \<lparr>baseUrl = None, pollInterval = None, timeout = None\<rparr> = Inl ApiKeyRequired"
  using constructor_requires_api_key[of None "Some Map.empty"] by (simp add: getEnvVar_def)

subsection \<open>C10: a retry override of zero\<close>

text \<open>
  C10. With the per-call override \<open>maxRetries = 0\<close> the retry budget is the default 3:
  the call behaves as the call without the override does, and against a service that
  answers 429 to everything it makes four attempts. Passing 0 does not disable retries.
\<close>

theorem maxRetries_zero_is_default:
  assumes "read_prop (maxRetries options) = Some 0"
  shows "num_or (read_prop (maxRetries options)) 3 = 3
    \<and> fetchWithTimeout rt c path options w
        = fetchWithTimeout rt c path (options\<lparr>maxRetries := Absent\<rparr>) w
    \<and> ((\<forall>k. \<exists>resp. net rt k = Responded resp \<and> Response.status resp = 429) \<longrightarrow>
         (\<exists>resp w'. fetchWithTimeout rt c path options w = (Inr resp, w')
            \<and> Response.status resp = 429
            \<and> attempts w' = attempts w + 4))"
proof (intro conjI impI)
  show budget: "num_or (read_prop (maxRetries options)) 3 = 3"
    using assms by (simp add: num_or_def)
  have req: "build_request c path (options\<lparr>maxRetries := Absent\<rparr>) = build_request c path options"
    by (simp add: build_request_def compose_headers_def)
  show "fetchWithTimeout rt c path options w
        = fetchWithTimeout rt c path (options\<lparr>maxRetries := Absent\<rparr>) w"
    using assms by (simp add: fetchWithTimeout_def req num_or_def)
  assume "\<forall>k. \<exists>resp. net rt k = Responded resp \<and> Response.status resp = 429"
  then have all: "\<And>k. \<exists>resp. net rt k = Responded resp \<and> Response.status resp = 429"
    by blast
  have b3: "num_or (read_prop (maxRetries options)) 3 = real 3" using budget by simp
  from fetch_loop_always_429[OF all, of 0 3 3 "build_request c path options" w]
  show "\<exists>resp w'. fetchWithTimeout rt c path options w = (Inr resp, w')
            \<and> Response.status resp = 429
            \<and> attempts w' = attempts w + 4"
    unfolding fetchWithTimeout_def b3 by auto
qed

theorem maxRetries_zero_is_default_witness:
  "attempts (snd (fetchWithTimeout (rt_of (\<lambda>k. Responded (resp_of 429))) client0 ''/test-path''
          (no_options\<lparr>maxRetries := Present 0\<rparr>) (world_of (job_of ''processing'')))) = 4"
proof -
  have h1: "\<forall>k. \<exists>resp. net (rt_of (\<lambda>k. Responded (resp_of 429))) k = Responded resp
              \<and> Response.status resp = 429"
    by (simp add: rt_of_def resp_of_def)
  have h2: "read_prop (maxRetries (no_options\<lparr>maxRetries := Present 0\<rparr>)) = Some 0"
    by simp
  from maxRetries_zero_is_default[OF h2, of "rt_of (\<lambda>k. Responded (resp_of 429))" client0
      "''/test-path''" "world_of (job_of ''processing'')"] h1
  obtain resp w' where
    "fetchWithTimeout (rt_of (\<lambda>k. Responded (resp_of 429))) client0 ''/test-path''
          (no_options\<lparr>maxRetries := Present 0\<rparr>) (world_of (job_of ''processing'')) = (Inr resp, w')"
    and "attempts w' = attempts (world_of (job_of ''processing'')) + 4"
    by blast
  then show ?thesis by (simp add: world_of_def)
qed

end
